theory Spec2Isabelle
  imports Main "HOL-Library.Word"
begin

section \<open>The OCSP response signer of cfssl (package ocsp, file ocsp/ocsp.go)\<close>

text \<open>
  The package holds one table (\<open>statusCode\<close>), two structs (\<open>SignRequest\<close>,
  \<open>StandardSigner\<close>), two constructors (\<open>NewStandardSignerFromFile\<close>, \<open>NewSigner\<close>)
  and the method \<open>Sign\<close>. Everything else it touches is a library: \<open>bytes\<close>,
  \<open>errors\<close>, \<open>time\<close>, \<open>io/ioutil\<close> and \<open>crypto/x509\<close> of the Go distribution,
  \<open>golang.org/x/crypto/ocsp\<close>, and the cfssl packages \<open>errors\<close>, \<open>helpers\<close> and \<open>log\<close>.
  Library functions that compute on plain data (\<open>bytes.Compare\<close>, \<open>Time.Round\<close>,
  \<open>Time.Add\<close>) are written out after their documentation; library functions that
  read the world or do cryptography (the clock, the file system, the PEM parsers,
  signature verification, response encoding) are parameters of the model.
\<close>

subsection \<open>Library data\<close>

text \<open>A Go \<open>[]byte\<close>. A nil slice and an empty slice both compare as the empty list.\<close>

type_synonym bytes = "8 word list"

text \<open>
  \<open>time.Time\<close> is modelled by the instant it denotes: nanoseconds since the zero time
  (January 1, year 1, 00:00:00 UTC), so the zero value \<open>time.Time{}\<close> is \<open>0\<close>. The
  location and the monotonic reading, which \<open>Round\<close> strips, are not modelled. The
  struct counts seconds in an \<open>int64\<close>, which a clock reading plus a \<open>Duration\<close>
  (at most about 292 years) cannot leave.
  \<open>time.Duration\<close> is an \<open>int64\<close> count of nanoseconds, read with \<open>sint\<close>.
\<close>

type_synonym Time = int
type_synonym Duration = "64 word"

definition time_Second :: Duration where
  "time_Second = 1000000000"

definition time_Hour :: Duration where
  "time_Hour = 3600000000000"

text \<open>
  \<open>func (t Time) Round(d Duration) Time\<close>: the result of rounding \<open>t\<close> to the nearest
  multiple of \<open>d\<close> since the zero time; halfway values round up; for \<open>d <= 0\<close> it
  returns \<open>t\<close> unchanged. The library computes the remainder \<open>r\<close> of \<open>t\<close> modulo
  \<open>d\<close> (non-negative) and returns \<open>t - r\<close> if \<open>r + r < d\<close>, else \<open>t + (d - r)\<close>.
\<close>

definition time_Round :: "Time \<Rightarrow> Duration \<Rightarrow> Time" where
  "time_Round t d =
     (if sint d \<le> 0 then t
      else let r = t mod sint d
           in if r + r < sint d then t - r else t + (sint d - r))"

text \<open>
  \<open>func (t Time) Truncate(d Duration) Time\<close>: rounding down to a multiple of \<open>d\<close>.
  The package does not call it; it is the operation the rounded-down reading of
  thisUpdate would need, and is here to be compared with \<open>time_Round\<close>.
\<close>

definition time_Truncate :: "Time \<Rightarrow> Duration \<Rightarrow> Time" where
  "time_Truncate t d = (if sint d \<le> 0 then t else t - t mod sint d)"

text \<open>\<open>func (t Time) Add(d Duration) Time\<close>: the time \<open>t + d\<close>.\<close>

definition time_Add :: "Time \<Rightarrow> Duration \<Rightarrow> Time" where
  "time_Add t d = t + sint d"

text \<open>
  \<open>bytes.Compare(a, b)\<close>: \<open>0\<close> if \<open>a == b\<close>, \<open>-1\<close> if \<open>a < b\<close>, \<open>+1\<close> if \<open>a > b\<close>, in the
  lexicographic order of unsigned bytes.
\<close>

fun bytes_Compare :: "bytes \<Rightarrow> bytes \<Rightarrow> int" where
  "bytes_Compare [] [] = 0"
| "bytes_Compare [] (y # ys) = - 1"
| "bytes_Compare (x # xs) [] = 1"
| "bytes_Compare (x # xs) (y # ys) =
     (if x < y then - 1 else if y < x then 1 else bytes_Compare xs ys)"

text \<open>
  The fields of \<open>x509.Certificate\<close> that the package reads (\<open>RawIssuer\<close>,
  \<open>RawSubject\<close>, \<open>SerialNumber\<close>), and \<open>Raw\<close>, the complete encoding, which stands for
  everything else the libraries read from a certificate. A \<open>*x509.Certificate\<close> is a
  \<open>x509_Certificate option\<close>, \<open>None\<close> for nil.
\<close>

record x509_Certificate =
  Raw :: bytes
  RawIssuer :: bytes
  RawSubject :: bytes
  SerialNumber :: int

text \<open>A \<open>crypto.Signer\<close> interface value: nil, or a private key (opaque to the package).\<close>

datatype crypto_Signer = NilSigner | PrivateKey bytes

text \<open>
  \<open>ocsp.Response\<close> of golang.org/x/crypto/ocsp, as far as a template uses it. The
  fields carry the prefix \<open>resp_\<close> because \<open>SignRequest\<close> below has fields of the same
  names. A composite literal leaves the fields it does not name at their zero values.
\<close>

record ocsp_Response =
  resp_Status :: int
  resp_SerialNumber :: int
  resp_ProducedAt :: Time
  resp_ThisUpdate :: Time
  resp_NextUpdate :: Time
  resp_RevokedAt :: Time
  resp_RevocationReason :: int
  resp_Certificate :: "x509_Certificate option"

text \<open>The status constants of golang.org/x/crypto/ocsp (\<open>Good = iota\<close>, and so on).\<close>

definition ocsp_Good :: int where "ocsp_Good = 0"
definition ocsp_Revoked :: int where "ocsp_Revoked = 1"
definition ocsp_Unknown :: int where "ocsp_Unknown = 2"

subsection \<open>Errors\<close>

text \<open>
  Go error values: \<open>errors.New(msg)\<close> is an \<open>errorString\<close>, known to its caller by its
  message only; \<open>ReadError\<close> is what \<open>ioutil.ReadFile\<close> returns for a path it cannot
  read; \<open>ParseError\<close> stands for the errors of the PEM parsers and \<open>LibError\<close> for
  those of the x509 and ocsp libraries; \<open>cferr_Wrap\<close> is the value of cfssl's
  \<open>errors.Wrap(category, reason, err)\<close>.
  A call either returns, with a value or with an error, or panics: \<open>failure\<close> is
  the left summand of every result.
\<close>

datatype Category = CertificateError
datatype Reason = ReadFailed

datatype error =
    errorString string
  | ReadError string
  | ParseError string
  | LibError string
  | cferr_Wrap Category Reason error

definition errors_New :: "string \<Rightarrow> error" where
  "errors_New msg = errorString msg"

datatype failure = Returned error | NilDereference

subsection \<open>The package\<close>

text \<open>\<open>var statusCode = map[string]int{...}\<close>\<close>

definition statusCode :: "string \<rightharpoonup> int" where
  "statusCode = [''good'' \<mapsto> ocsp_Good, ''revoked'' \<mapsto> ocsp_Revoked, ''unknown'' \<mapsto> ocsp_Unknown]"

record SignRequest =
  Certificate :: "x509_Certificate option"
  Status :: string
  Reason :: int
  RevokedAt :: Time

record StandardSigner =
  issuer :: "x509_Certificate option"
  responder :: "x509_Certificate option"
  key :: crypto_Signer
  interval :: Duration

text \<open>
  \<open>NewSigner\<close>. The interval is a Go \<open>int\<close>, 64 bits wide on the 64-bit platforms;
  \<open>time.Duration(interval) * time.Second\<close> multiplies in \<open>int64\<close> and wraps around.
\<close>

definition NewSigner ::
  "x509_Certificate option \<Rightarrow> x509_Certificate option \<Rightarrow> crypto_Signer \<Rightarrow> 64 word
     \<Rightarrow> error + StandardSigner" where
  "NewSigner issuer' responder' key' interval' =
     Inr \<lparr>issuer = issuer', responder = responder', key = key',
          interval = interval' * time_Second\<rparr>"

text \<open>
  What \<open>NewStandardSignerFromFile\<close> takes from outside: the file system as
  \<open>ioutil.ReadFile\<close> sees it, and the two PEM parsers of cfssl's helpers package.
\<close>

record file_env =
  ReadFile :: "string \<Rightarrow> error + bytes"
  ParseCertificatePEM :: "bytes \<Rightarrow> error + x509_Certificate"
  ParsePrivateKeyPEM :: "bytes \<Rightarrow> error + crypto_Signer"

text \<open>A \<open>log.Debug\<close> call, by its arguments.\<close>

datatype log_arg = S string | E error
type_synonym log_entry = "log_arg list"

text \<open>
  \<open>NewStandardSignerFromFile\<close> returns the debug log it wrote and its result. The
  three reads come first, then the three parses, in the order of the source; the
  second read is \<open>ioutil.ReadFile(issuerFile)\<close>, as the source has it (line 54).
\<close>

definition NewStandardSignerFromFile ::
  "file_env \<Rightarrow> string \<Rightarrow> string \<Rightarrow> string \<Rightarrow> 64 word
     \<Rightarrow> log_entry list \<times> (error + StandardSigner)" where
  "NewStandardSignerFromFile env issuerFile responderFile keyFile interval' =
     (let log1 = [[S ''Loading CA cert: '', S issuerFile]] in
      case ReadFile env issuerFile of
        Inl err \<Rightarrow> (log1, Inl err)
      | Inr issuerBytes \<Rightarrow>
     (let log2 = log1 @ [[S ''Loading responder cert: '', S responderFile]] in
      case ReadFile env issuerFile of
        Inl err \<Rightarrow> (log2, Inl err)
      | Inr responderBytes \<Rightarrow>
     (let log3 = log2 @ [[S ''Loading responder key: '', S keyFile]] in
      case ReadFile env keyFile of
        Inl err \<Rightarrow> (log3, Inl (cferr_Wrap CertificateError ReadFailed err))
      | Inr keyBytes \<Rightarrow>
     (case ParseCertificatePEM env issuerBytes of
        Inl err \<Rightarrow> (log3, Inl err)
      | Inr issuerCert \<Rightarrow>
     (case ParseCertificatePEM env responderBytes of
        Inl err \<Rightarrow> (log3, Inl err)
      | Inr responderCert \<Rightarrow>
     (case ParsePrivateKeyPEM env keyBytes of
        Inl err \<Rightarrow> (log3 @ [[S ''Malformed private key %v'', E err]], Inl err)
      | Inr key' \<Rightarrow>
          (log3, NewSigner (Some issuerCert) (Some responderCert) key' interval')))))))"

text \<open>
  What \<open>Sign\<close> takes from outside: \<open>(*x509.Certificate).CheckSignatureFrom\<close> (nil or
  an error), the reading of the clock that \<open>time.Now()\<close> returns, and
  \<open>ocsp.CreateResponse\<close>.
\<close>

record sign_env =
  CheckSignatureFrom :: "x509_Certificate \<Rightarrow> x509_Certificate \<Rightarrow> error option"
  Now :: Time
  CreateResponse ::
    "x509_Certificate option \<Rightarrow> x509_Certificate option \<Rightarrow> ocsp_Response \<Rightarrow> crypto_Signer
       \<Rightarrow> failure + bytes"

text \<open>The calls \<open>Sign\<close> makes to these three, with their arguments.\<close>

datatype call =
    Call_CheckSignatureFrom x509_Certificate x509_Certificate
  | Call_time_Now
  | Call_CreateResponse "x509_Certificate option" "x509_Certificate option" ocsp_Response crypto_Signer

text \<open>
  \<open>Sign\<close> returns the calls it made, in order, and its result. Reading
  \<open>s.issuer.RawSubject\<close> with a nil \<open>s.issuer\<close> panics.
\<close>

definition Sign :: "sign_env \<Rightarrow> StandardSigner \<Rightarrow> SignRequest \<Rightarrow> call list \<times> (failure + bytes)" where
  "Sign env s req =
     (case Certificate req of
        None \<Rightarrow> ([], Inl (Returned (errors_New ''TODO'')))
      | Some cert \<Rightarrow>
     (case issuer s of
        None \<Rightarrow> ([], Inl NilDereference)
      | Some iss \<Rightarrow>
          if bytes_Compare (RawIssuer cert) (RawSubject iss) \<noteq> 0
          then ([], Inl (Returned (errors_New ''TODO'')))
          else if CheckSignatureFrom env cert iss \<noteq> None
          then ([Call_CheckSignatureFrom cert iss], Inl (Returned (errors_New ''TODO'')))
          else
            let thisUpdate = time_Round (Now env) time_Hour;
                nextUpdate = time_Add thisUpdate (interval s)
            in
            (case statusCode (Status req) of
               None \<Rightarrow>
                 ([Call_CheckSignatureFrom cert iss, Call_time_Now],
                  Inl (Returned (errors_New ''TODO'')))
             | Some status \<Rightarrow>
                 let template =
                       \<lparr>resp_Status = status,
                        resp_SerialNumber = SerialNumber cert,
                        resp_ProducedAt = 0,
                        resp_ThisUpdate = thisUpdate,
                        resp_NextUpdate = nextUpdate,
                        resp_RevokedAt = 0,
                        resp_RevocationReason = 0,
                        resp_Certificate = responder s\<rparr>;
                     template =
                       (if status = ocsp_Revoked
                        then template\<lparr>resp_RevokedAt := RevokedAt req,
                                      resp_RevocationReason := Reason req\<rparr>
                        else template)
                 in
                 ([Call_CheckSignatureFrom cert iss, Call_time_Now,
                   Call_CreateResponse (issuer s) (responder s) template (key s)],
                  CreateResponse env (issuer s) (responder s) template (key s)))))"

text \<open>The template of a run of \<open>Sign\<close>: the one its call of \<open>ocsp.CreateResponse\<close> carries.\<close>

fun template_of :: "call list \<Rightarrow> ocsp_Response option" where
  "template_of [] = None"
| "template_of (Call_CreateResponse i r t k # cs) = Some t"
| "template_of (c # cs) = template_of cs"

subsection \<open>Concrete inputs\<close>

text \<open>
  A small world on which the properties below are run: an issuer named \<open>CA\<close>, a
  responder and a leaf certificate issued by it, a certificate of a foreign issuer,
  a verifier that accepts and one that refuses, and an encoder that returns one byte.
\<close>

definition ca_cert :: x509_Certificate where
  "ca_cert = \<lparr>Raw = [1], RawIssuer = [67, 65], RawSubject = [67, 65], SerialNumber = 1\<rparr>"

definition responder_cert :: x509_Certificate where
  "responder_cert = \<lparr>Raw = [2], RawIssuer = [67, 65], RawSubject = [82], SerialNumber = 2\<rparr>"

definition leaf_cert :: x509_Certificate where
  "leaf_cert = \<lparr>Raw = [3], RawIssuer = [67, 65], RawSubject = [76], SerialNumber = 7\<rparr>"

definition foreign_cert :: x509_Certificate where
  "foreign_cert = \<lparr>Raw = [4], RawIssuer = [88], RawSubject = [76], SerialNumber = 7\<rparr>"

definition responder_key :: crypto_Signer where
  "responder_key = PrivateKey [5]"

definition verify_accepts :: "x509_Certificate \<Rightarrow> x509_Certificate \<Rightarrow> error option" where
  "verify_accepts c parent = None"

definition verify_refuses :: "x509_Certificate \<Rightarrow> x509_Certificate \<Rightarrow> error option" where
  "verify_refuses c parent = Some (LibError ''crypto/rsa: verification error'')"

definition encode_one_byte ::
  "x509_Certificate option \<Rightarrow> x509_Certificate option \<Rightarrow> ocsp_Response \<Rightarrow> crypto_Signer
     \<Rightarrow> failure + bytes" where
  "encode_one_byte i r t k = Inr [48]"

text \<open>The clock reads 01:30:00 after the zero time (5400 seconds).\<close>

definition env_0130 :: sign_env where
  "env_0130 = \<lparr>CheckSignatureFrom = verify_accepts, Now = 5400000000000,
               CreateResponse = encode_one_byte\<rparr>"

definition env_0130_refusing :: sign_env where
  "env_0130_refusing = \<lparr>CheckSignatureFrom = verify_refuses, Now = 5400000000000,
                        CreateResponse = encode_one_byte\<rparr>"

text \<open>
  An encoder whose bytes show the template it was given: the status, thisUpdate
  and nextUpdate in whole hours, the revocation time and the revocation reason.
\<close>

definition encode_fields ::
  "x509_Certificate option \<Rightarrow> x509_Certificate option \<Rightarrow> ocsp_Response \<Rightarrow> crypto_Signer
     \<Rightarrow> failure + bytes" where
  "encode_fields i r t k =
     Inr [word_of_int (resp_Status t),
          word_of_int (resp_ThisUpdate t div 3600000000000),
          word_of_int (resp_NextUpdate t div 3600000000000),
          word_of_int (resp_RevokedAt t),
          word_of_int (resp_RevocationReason t)]"

definition env_0130_fields :: sign_env where
  "env_0130_fields = \<lparr>CheckSignatureFrom = verify_accepts, Now = 5400000000000,
                      CreateResponse = encode_fields\<rparr>"

text \<open>The clock reads 01:10:00 after the zero time (4200 seconds).\<close>

definition env_0110_fields :: sign_env where
  "env_0110_fields = \<lparr>CheckSignatureFrom = verify_accepts, Now = 4200000000000,
                      CreateResponse = encode_fields\<rparr>"

definition signer_3600 :: StandardSigner where
  "signer_3600 = \<lparr>issuer = Some ca_cert, responder = Some responder_cert,
                  key = responder_key, interval = 3600 * time_Second\<rparr>"

definition signer_no_issuer :: StandardSigner where
  "signer_no_issuer = \<lparr>issuer = None, responder = Some responder_cert,
                       key = responder_key, interval = 3600 * time_Second\<rparr>"

definition signer_overflow :: StandardSigner where
  "signer_overflow = \<lparr>issuer = Some ca_cert, responder = Some responder_cert,
                      key = responder_key, interval = 9223372037 * time_Second\<rparr>"

definition request_good :: SignRequest where
  "request_good = \<lparr>Certificate = Some leaf_cert, Status = ''good'', Reason = 1,
                   RevokedAt = 1000\<rparr>"

definition request_revoked :: SignRequest where
  "request_revoked = \<lparr>Certificate = Some leaf_cert, Status = ''revoked'', Reason = 1,
                      RevokedAt = 1000\<rparr>"

definition request_good_100 :: SignRequest where
  "request_good_100 = \<lparr>Certificate = Some leaf_cert, Status = ''good'', Reason = 4,
                       RevokedAt = 100\<rparr>"

definition request_revoked_100 :: SignRequest where
  "request_revoked_100 = \<lparr>Certificate = Some leaf_cert, Status = ''revoked'', Reason = 4,
                          RevokedAt = 100\<rparr>"

definition request_no_cert :: SignRequest where
  "request_no_cert = \<lparr>Certificate = None, Status = ''good'', Reason = 0, RevokedAt = 0\<rparr>"

definition request_foreign :: SignRequest where
  "request_foreign = \<lparr>Certificate = Some foreign_cert, Status = ''good'', Reason = 0,
                      RevokedAt = 0\<rparr>"

definition request_bad_status :: SignRequest where
  "request_bad_status = \<lparr>Certificate = Some leaf_cert, Status = ''Good'', Reason = 0,
                         RevokedAt = 0\<rparr>"

text \<open>
  Three files, each holding one byte, and parsers that succeed on every non-empty
  input: the parsed certificate keeps the bytes it came from in \<open>Raw\<close>.
\<close>

definition three_files :: "string \<Rightarrow> error + bytes" where
  "three_files path =
     (if path = ''ca.pem'' then Inr [1]
      else if path = ''responder.pem'' then Inr [2]
      else if path = ''key.pem'' then Inr [5]
      else Inl (ReadError path))"

definition parse_cert :: "bytes \<Rightarrow> error + x509_Certificate" where
  "parse_cert b =
     (if b = [] then Inl (ParseError ''no PEM data'')
      else Inr \<lparr>Raw = b, RawIssuer = [67, 65], RawSubject = b, SerialNumber = int (length b)\<rparr>)"

definition parse_key :: "bytes \<Rightarrow> error + crypto_Signer" where
  "parse_key b = (if b = [] then Inl (ParseError ''no PEM data'') else Inr (PrivateKey b))"

definition files_env :: file_env where
  "files_env = \<lparr>ReadFile = three_files, ParseCertificatePEM = parse_cert,
                ParsePrivateKeyPEM = parse_key\<rparr>"

section \<open>Properties\<close>

subsection \<open>Facts about the library functions and the table\<close>

lemma bytes_Compare_eq: "bytes_Compare a b = 0 \<longleftrightarrow> a = b"
  by (induction a b rule: bytes_Compare.induct) auto

lemma sint_Hour: "sint time_Hour = 3600000000000"
  by (simp add: time_Hour_def)

lemma sint_Second: "sint time_Second = 1000000000"
  by (simp add: time_Second_def)

text \<open>Seconds times \<open>time.Second\<close> stay inside \<open>int64\<close> up to 9223372036 seconds.\<close>

lemma interval_exact:
  assumes "- 9223372036 \<le> sint n" "sint n \<le> 9223372036"
  shows "sint ((n :: 64 word) * time_Second) = sint n * 1000000000"
proof -
  have "sint (n * time_Second) = signed_take_bit 63 (sint n * sint time_Second)"
    by (simp add: sint_word_ariths)
  also have "\<dots> = sint n * 1000000000"
    using assms by (simp add: sint_Second signed_take_bit_int_eq_self)
  finally show ?thesis .
qed

lemma hour_floor_multiple: "((t::int) - t mod 3600000000000) mod 3600000000000 = 0"
  by (simp add: mod_diff_right_eq)

lemma hour_ceiling_multiple:
  "((t::int) + (3600000000000 - t mod 3600000000000)) mod 3600000000000 = 0"
proof -
  have "t + (3600000000000 - t mod 3600000000000) = (t - t mod 3600000000000) + 3600000000000"
    by simp
  then show ?thesis
    using hour_floor_multiple [of t] by (simp only: mod_add_self2)
qed

lemma time_Round_Hour:
  "time_Round t time_Hour =
     (if 2 * (t mod 3600000000000) < 3600000000000
      then time_Truncate t time_Hour
      else time_Truncate t time_Hour + 3600000000000)"
  by (simp add: time_Round_def time_Truncate_def sint_Hour Let_def)

lemma time_Round_Hour_multiple: "time_Round t time_Hour mod 3600000000000 = 0"
  using hour_floor_multiple [of t] hour_ceiling_multiple [of t]
  by (simp add: time_Round_def sint_Hour Let_def)

lemma time_Round_Hour_near: "2 * \<bar>time_Round t time_Hour - t\<bar> \<le> 3600000000000"
proof -
  have "0 \<le> t mod 3600000000000" "t mod 3600000000000 < 3600000000000"
    by simp_all
  then show ?thesis
    by (simp add: time_Round_def sint_Hour Let_def)
qed

lemma dom_statusCode: "dom statusCode = {''good'', ''revoked'', ''unknown''}"
  by (auto simp: statusCode_def)

lemma statusCode_Some:
  "statusCode tok = Some c \<longleftrightarrow>
     tok = ''good'' \<and> c = 0 \<or> tok = ''revoked'' \<and> c = 1 \<or> tok = ''unknown'' \<and> c = 2"
  by (auto simp: statusCode_def ocsp_Good_def ocsp_Revoked_def ocsp_Unknown_def)

subsection \<open>A run of Sign that returns bytes\<close>

text \<open>
  \<open>Sign\<close> returns bytes only after all four checks have passed, and then the
  bytes are what \<open>ocsp.CreateResponse\<close> returned for this template.
\<close>

lemma Sign_Inr:
  assumes "Sign env s req = (tr, Inr bs)"
  obtains cert iss status t where
    "Certificate req = Some cert" "issuer s = Some iss"
    "RawIssuer cert = RawSubject iss" "CheckSignatureFrom env cert iss = None"
    "statusCode (Status req) = Some status"
    "t = \<lparr>resp_Status = status,
             resp_SerialNumber = SerialNumber cert,
             resp_ProducedAt = 0,
             resp_ThisUpdate = time_Round (Now env) time_Hour,
             resp_NextUpdate = time_Add (time_Round (Now env) time_Hour) (interval s),
             resp_RevokedAt = (if status = ocsp_Revoked then RevokedAt req else 0),
             resp_RevocationReason = (if status = ocsp_Revoked then Reason req else 0),
             resp_Certificate = responder s\<rparr>"
    "template_of tr = Some t"
    "tr = [Call_CheckSignatureFrom cert iss, Call_time_Now,
           Call_CreateResponse (issuer s) (responder s) t (key s)]"
    "CreateResponse env (issuer s) (responder s) t (key s) = Inr bs"
  using assms
  by (auto simp: Sign_def Let_def bytes_Compare_eq split: option.splits if_splits)

text \<open>The equations that evaluate the package on the concrete inputs.\<close>

lemmas world =
  ca_cert_def responder_cert_def leaf_cert_def foreign_cert_def responder_key_def
  verify_accepts_def verify_refuses_def encode_one_byte_def encode_fields_def
  env_0130_def env_0130_refusing_def env_0130_fields_def env_0110_fields_def
  signer_3600_def signer_no_issuer_def signer_overflow_def
  request_good_def request_revoked_def request_good_100_def request_revoked_100_def
  request_no_cert_def request_foreign_def
  request_bad_status_def

lemmas run_Sign =
  Sign_def Let_def statusCode_def ocsp_Good_def ocsp_Revoked_def ocsp_Unknown_def
  time_Round_def time_Truncate_def time_Add_def sint_Hour time_Second_def errors_New_def

lemmas run_files =
  NewStandardSignerFromFile_def NewSigner_def Let_def files_env_def three_files_def
  parse_cert_def parse_key_def time_Second_def

subsection \<open>The checks of Sign\<close>

text \<open>
  C1. For every identity with an issuer and every request whose certificate is
  present and carries the issuer's subject as its issuer name, \<open>Sign\<close> calls
  \<open>CheckSignatureFrom\<close> on the certificate and the issuer (the check is never
  skipped), and if that call returns an error, \<open>Sign\<close> returns the error
  \<open>errors.New("TODO")\<close> of its third check, and no bytes, having called nothing else.
\<close>

theorem Sign_rejects_bad_signature:
  assumes "Certificate req = Some cert" and "issuer s = Some iss"
    and "RawIssuer cert = RawSubject iss"
  shows "Call_CheckSignatureFrom cert iss \<in> set (fst (Sign env s req)) \<and>
         (CheckSignatureFrom env cert iss \<noteq> None \<longrightarrow>
            Sign env s req =
              ([Call_CheckSignatureFrom cert iss], Inl (Returned (errors_New ''TODO''))))"
  using assms by (simp add: Sign_def bytes_Compare_eq Let_def split: option.splits)

theorem Sign_rejects_bad_signature_witness:
  "Certificate request_good = Some leaf_cert \<and> issuer signer_3600 = Some ca_cert \<and>
   RawIssuer leaf_cert = RawSubject ca_cert \<and>
   CheckSignatureFrom env_0130_refusing leaf_cert ca_cert \<noteq> None \<and>
   Sign env_0130_refusing signer_3600 request_good =
     ([Call_CheckSignatureFrom leaf_cert ca_cert], Inl (Returned (errorString ''TODO'')))"
  using Sign_rejects_bad_signature
          [where req = request_good and cert = leaf_cert and s = signer_3600
             and iss = ca_cert and env = env_0130_refusing]
  by (simp add: world errors_New_def)

text \<open>
  C2. For every request with a certificate and every identity with an issuer, if
  the certificate's \<open>RawIssuer\<close> differs from the issuer's \<open>RawSubject\<close> in any byte,
  \<open>Sign\<close> returns the error \<open>errors.New("TODO")\<close> of its second check, and it has
  made no call by then: \<open>CheckSignatureFrom\<close> is not reached.
\<close>

theorem Sign_rejects_issuer_mismatch:
  assumes "Certificate req = Some cert" and "issuer s = Some iss"
    and "RawIssuer cert \<noteq> RawSubject iss"
  shows "Sign env s req = ([], Inl (Returned (errors_New ''TODO'')))"
  using assms by (simp add: Sign_def bytes_Compare_eq)

theorem Sign_rejects_issuer_mismatch_witness:
  "Certificate request_foreign = Some foreign_cert \<and> issuer signer_3600 = Some ca_cert \<and>
   RawIssuer foreign_cert \<noteq> RawSubject ca_cert \<and>
   Sign env_0130 signer_3600 request_foreign = ([], Inl (Returned (errorString ''TODO'')))"
  using Sign_rejects_issuer_mismatch
          [where req = request_foreign and cert = foreign_cert and s = signer_3600
             and iss = ca_cert and env = env_0130]
  by (simp add: world errors_New_def)

subsection \<open>The file-based constructor\<close>

text \<open>
  C3. The specification has the responder certificate read from the responder
  path. The source reads the issuer path a second time (line 54), so on three files with
  three different contents the signer's responder is the certificate of
  \<open>ca.pem\<close>, while the log line names \<open>responder.pem\<close>, whose certificate is another.
\<close>

theorem NewStandardSignerFromFile_responder_from_issuer_path:
  "NewStandardSignerFromFile files_env ''ca.pem'' ''responder.pem'' ''key.pem'' 3600 =
     ([[S ''Loading CA cert: '', S ''ca.pem''],
       [S ''Loading responder cert: '', S ''responder.pem''],
       [S ''Loading responder key: '', S ''key.pem'']],
      Inr \<lparr>issuer =
             Some \<lparr>Raw = [1], RawIssuer = [67, 65], RawSubject = [1], SerialNumber = 1\<rparr>,
           responder =
             Some \<lparr>Raw = [1], RawIssuer = [67, 65], RawSubject = [1], SerialNumber = 1\<rparr>,
           key = PrivateKey [5], interval = 3600000000000\<rparr>) \<and>
   ReadFile files_env ''responder.pem'' = Inr [2] \<and>
   ParseCertificatePEM files_env [2] =
     Inr \<lparr>Raw = [2], RawIssuer = [67, 65], RawSubject = [2], SerialNumber = 1\<rparr>"
  by (simp add: run_files)

text \<open>The result never depends on the responder path, only the log does.\<close>

lemma NewStandardSignerFromFile_ignores_responderFile:
  "snd (NewStandardSignerFromFile env issuerFile responderFile keyFile n) =
   snd (NewStandardSignerFromFile env issuerFile responderFile' keyFile n)"
  by (simp add: NewStandardSignerFromFile_def Let_def split: sum.splits)

subsection \<open>The template\<close>

text \<open>
  C4, as the code has it. For every run of \<open>Sign\<close> that returns bytes, the bytes
  are what \<open>ocsp.CreateResponse\<close> returned for the issuer, the responder, the key
  and a template whose thisUpdate is the clock reading rounded to the nearest whole hour, a half
  hour rounding up: the start of the current hour while less than 30 minutes of
  it have passed, the start of the next hour from then on. It is a whole hour and
  at most 30 minutes from the clock reading.
\<close>

theorem Sign_thisUpdate_nearest_hour:
  assumes "Sign env s req = (tr, Inr bs)"
  shows "\<exists>t. template_of tr = Some t \<and>
           Call_CreateResponse (issuer s) (responder s) t (key s) \<in> set tr \<and>
           CreateResponse env (issuer s) (responder s) t (key s) = Inr bs \<and>
           resp_ThisUpdate t = time_Round (Now env) time_Hour \<and>
           resp_ThisUpdate t =
             (if 2 * (Now env mod 3600000000000) < 3600000000000
              then time_Truncate (Now env) time_Hour
              else time_Truncate (Now env) time_Hour + 3600000000000) \<and>
           resp_ThisUpdate t mod 3600000000000 = 0 \<and>
           2 * \<bar>resp_ThisUpdate t - Now env\<bar> \<le> 3600000000000"
proof -
  from assms obtain t where t: "template_of tr = Some t"
    and c: "Call_CreateResponse (issuer s) (responder s) t (key s) \<in> set tr"
    and e: "CreateResponse env (issuer s) (responder s) t (key s) = Inr bs"
    and u: "resp_ThisUpdate t = time_Round (Now env) time_Hour"
    by (rule Sign_Inr) simp
  show ?thesis
    using t c e u time_Round_Hour [of "Now env"] time_Round_Hour_multiple [of "Now env"]
      time_Round_Hour_near [of "Now env"]
    by simp
qed

theorem Sign_thisUpdate_nearest_hour_witness:
  "Sign env_0110_fields signer_3600 request_good_100 =
     ([Call_CheckSignatureFrom leaf_cert ca_cert, Call_time_Now,
       Call_CreateResponse (Some ca_cert) (Some responder_cert)
         \<lparr>resp_Status = 0, resp_SerialNumber = 7, resp_ProducedAt = 0,
          resp_ThisUpdate = 3600000000000, resp_NextUpdate = 7200000000000,
          resp_RevokedAt = 0, resp_RevocationReason = 0,
          resp_Certificate = Some responder_cert\<rparr> responder_key],
      Inr [0, 1, 2, 0, 0]) \<and>
   time_Round (Now env_0110_fields) time_Hour = 3600000000000 \<and>
   time_Truncate (Now env_0110_fields) time_Hour = 3600000000000"
  using Sign_thisUpdate_nearest_hour
          [where env = env_0110_fields and s = signer_3600 and req = request_good_100
             and tr = "fst (Sign env_0110_fields signer_3600 request_good_100)"
             and bs = "[0, 1, 2, 0, 0]"]
  by (simp add: run_Sign world)

text \<open>
  At 01:30:00 the run returns bytes with thisUpdate at 02:00:00, the next hour;
  rounding down gives 01:00:00.
\<close>

theorem Sign_thisUpdate_round_down_counterexample:
  "Sign env_0130 signer_3600 request_good =
     ([Call_CheckSignatureFrom leaf_cert ca_cert, Call_time_Now,
       Call_CreateResponse (Some ca_cert) (Some responder_cert)
         \<lparr>resp_Status = 0, resp_SerialNumber = 7, resp_ProducedAt = 0,
          resp_ThisUpdate = 7200000000000, resp_NextUpdate = 10800000000000,
          resp_RevokedAt = 0, resp_RevocationReason = 0,
          resp_Certificate = Some responder_cert\<rparr> responder_key],
      Inr [48]) \<and>
   Now env_0130 = 5400000000000 \<and>
   time_Truncate (Now env_0130) time_Hour = 3600000000000 \<and>
   map_option resp_ThisUpdate (template_of (fst (Sign env_0130 signer_3600 request_good)))
     \<noteq> Some (time_Truncate (Now env_0130) time_Hour)"
  by (simp add: run_Sign world)

text \<open>
  C5. For every run of \<open>Sign\<close> that returns bytes, the bytes are what
  \<open>ocsp.CreateResponse\<close> returned for the issuer, the responder, the key and a
  template of which this holds: either the request's status is
  \<open>revoked\<close>, the template's status is the revoked code and its revocation time
  and reason are the request's; or the status is \<open>good\<close> or \<open>unknown\<close>, the
  template's status is not the revoked code and both fields are zero, whatever
  the request held.
\<close>

theorem Sign_revocation_fields:
  assumes "Sign env s req = (tr, Inr bs)"
  shows "\<exists>t. template_of tr = Some t \<and>
           Call_CreateResponse (issuer s) (responder s) t (key s) \<in> set tr \<and>
           CreateResponse env (issuer s) (responder s) t (key s) = Inr bs \<and>
           (Status req = ''revoked'' \<and> resp_Status t = ocsp_Revoked \<and>
              resp_RevokedAt t = RevokedAt req \<and> resp_RevocationReason t = Reason req
            \<or>
            (Status req = ''good'' \<or> Status req = ''unknown'') \<and> resp_Status t \<noteq> ocsp_Revoked \<and>
              resp_RevokedAt t = 0 \<and> resp_RevocationReason t = 0)"
proof -
  from assms obtain t status where t: "template_of tr = Some t"
    and c: "Call_CreateResponse (issuer s) (responder s) t (key s) \<in> set tr"
    and e: "CreateResponse env (issuer s) (responder s) t (key s) = Inr bs"
    and st: "statusCode (Status req) = Some status" "resp_Status t = status"
    and f: "resp_RevokedAt t = (if status = ocsp_Revoked then RevokedAt req else 0)"
      "resp_RevocationReason t = (if status = ocsp_Revoked then Reason req else 0)"
    by (rule Sign_Inr) simp
  from st f have
    "Status req = ''revoked'' \<and> resp_Status t = ocsp_Revoked \<and>
       resp_RevokedAt t = RevokedAt req \<and> resp_RevocationReason t = Reason req
     \<or>
     (Status req = ''good'' \<or> Status req = ''unknown'') \<and> resp_Status t \<noteq> ocsp_Revoked \<and>
       resp_RevokedAt t = 0 \<and> resp_RevocationReason t = 0"
    by (auto simp: statusCode_Some ocsp_Revoked_def)
  with t c e show ?thesis
    by blast
qed

theorem Sign_revocation_fields_witness:
  "Sign env_0130_fields signer_3600 request_revoked_100 =
     ([Call_CheckSignatureFrom leaf_cert ca_cert, Call_time_Now,
       Call_CreateResponse (Some ca_cert) (Some responder_cert)
         \<lparr>resp_Status = 1, resp_SerialNumber = 7, resp_ProducedAt = 0,
          resp_ThisUpdate = 7200000000000, resp_NextUpdate = 10800000000000,
          resp_RevokedAt = 100, resp_RevocationReason = 4,
          resp_Certificate = Some responder_cert\<rparr> responder_key],
      Inr [1, 2, 3, 100, 4]) \<and>
   RevokedAt request_revoked_100 = 100 \<and> Reason request_revoked_100 = 4 \<and>
   RevokedAt request_good_100 = 100 \<and> Reason request_good_100 = 4 \<and>
   Sign env_0130_fields signer_3600 request_good_100 =
     ([Call_CheckSignatureFrom leaf_cert ca_cert, Call_time_Now,
       Call_CreateResponse (Some ca_cert) (Some responder_cert)
         \<lparr>resp_Status = 0, resp_SerialNumber = 7, resp_ProducedAt = 0,
          resp_ThisUpdate = 7200000000000, resp_NextUpdate = 10800000000000,
          resp_RevokedAt = 0, resp_RevocationReason = 0,
          resp_Certificate = Some responder_cert\<rparr> responder_key],
      Inr [0, 2, 3, 0, 0])"
  using Sign_revocation_fields
          [where env = env_0130_fields and s = signer_3600 and req = request_revoked_100
             and tr = "fst (Sign env_0130_fields signer_3600 request_revoked_100)"
             and bs = "[1, 2, 3, 100, 4]"]
        Sign_revocation_fields
          [where env = env_0130_fields and s = signer_3600 and req = request_good_100
             and tr = "fst (Sign env_0130_fields signer_3600 request_good_100)"
             and bs = "[0, 2, 3, 0, 0]"]
  by (simp add: run_Sign world)

subsection \<open>The status table\<close>

text \<open>
  C6. \<open>statusCode\<close> is defined on exactly \<open>good\<close>, \<open>revoked\<close> and \<open>unknown\<close>, with
  the codes 0, 1 and 2. For a request with any other status string \<open>Sign\<close> never
  returns bytes, and with an issuer in the identity it returns the error
  \<open>errors.New("TODO")\<close> (no status is assumed by default). For a request that
  passes the three earlier checks and whose status is in the table, the template
  handed to \<open>ocsp.CreateResponse\<close> has the status code of the table.
\<close>

theorem statusCode_total_on_three_tokens:
  "dom statusCode = {''good'', ''revoked'', ''unknown''} \<and>
   statusCode ''good'' = Some 0 \<and> statusCode ''revoked'' = Some 1 \<and>
   statusCode ''unknown'' = Some 2 \<and>
   (Status req \<notin> {''good'', ''revoked'', ''unknown''} \<longrightarrow>
      isl (snd (Sign env s req)) \<and>
      (issuer s \<noteq> None \<longrightarrow> snd (Sign env s req) = Inl (Returned (errors_New ''TODO'')))) \<and>
   (Certificate req = Some cert \<and> issuer s = Some iss \<and> RawIssuer cert = RawSubject iss \<and>
    CheckSignatureFrom env cert iss = None \<and> statusCode (Status req) = Some code \<longrightarrow>
      (\<exists>t. template_of (fst (Sign env s req)) = Some t \<and> resp_Status t = code \<and>
           snd (Sign env s req) = CreateResponse env (issuer s) (responder s) t (key s)))"
proof (intro conjI impI)
  show "dom statusCode = {''good'', ''revoked'', ''unknown''}"
    by (rule dom_statusCode)
  show "statusCode ''good'' = Some 0" "statusCode ''revoked'' = Some 1"
    "statusCode ''unknown'' = Some 2"
    by (simp_all add: statusCode_Some)
next
  assume "Status req \<notin> {''good'', ''revoked'', ''unknown''}"
  then have none: "statusCode (Status req) = None"
    by (simp add: statusCode_def)
  show "isl (snd (Sign env s req))"
    using none by (simp add: Sign_def Let_def split: option.splits)
  assume "issuer s \<noteq> None"
  then show "snd (Sign env s req) = Inl (Returned (errors_New ''TODO''))"
    using none by (auto simp: Sign_def Let_def split: option.splits)
next
  assume "Certificate req = Some cert \<and> issuer s = Some iss \<and> RawIssuer cert = RawSubject iss \<and>
    CheckSignatureFrom env cert iss = None \<and> statusCode (Status req) = Some code"
  then show "\<exists>t. template_of (fst (Sign env s req)) = Some t \<and> resp_Status t = code \<and>
           snd (Sign env s req) = CreateResponse env (issuer s) (responder s) t (key s)"
    by (simp add: Sign_def Let_def bytes_Compare_eq)
qed

theorem statusCode_total_on_three_tokens_witness:
  "Status request_bad_status \<notin> {''good'', ''revoked'', ''unknown''} \<and>
   issuer signer_3600 \<noteq> None \<and>
   snd (Sign env_0130 signer_3600 request_bad_status) = Inl (Returned (errorString ''TODO'')) \<and>
   Certificate request_revoked = Some leaf_cert \<and> issuer signer_3600 = Some ca_cert \<and>
   RawIssuer leaf_cert = RawSubject ca_cert \<and>
   CheckSignatureFrom env_0130 leaf_cert ca_cert = None \<and>
   statusCode (Status request_revoked) = Some 1 \<and>
   map_option resp_Status (template_of (fst (Sign env_0130 signer_3600 request_revoked)))
     = Some 1 \<and>
   snd (Sign env_0130 signer_3600 request_revoked) = Inr [48]"
  using statusCode_total_on_three_tokens
          [where req = request_bad_status and env = env_0130 and s = signer_3600]
        statusCode_total_on_three_tokens
          [where req = request_revoked and env = env_0130 and s = signer_3600
             and cert = leaf_cert and iss = ca_cert and code = 1]
  by (simp add: run_Sign world)

subsection \<open>The first check\<close>

text \<open>
  C7. For every identity, also one without an issuer, and every clock, verifier
  and encoder, \<open>Sign\<close> on a request with a nil certificate returns the error
  \<open>errors.New("TODO")\<close> of its first check and has made no call: no name is
  compared (a nil issuer would panic there), nothing is verified, the clock is
  not read and nothing is encoded.
\<close>

theorem Sign_rejects_missing_certificate:
  "Certificate req = None \<Longrightarrow> Sign env s req = ([], Inl (Returned (errors_New ''TODO'')))"
  by (simp add: Sign_def)

theorem Sign_rejects_missing_certificate_witness:
  "Certificate request_no_cert = None \<and>
   Sign env_0130 signer_no_issuer request_no_cert = ([], Inl (Returned (errorString ''TODO'')))"
  using Sign_rejects_missing_certificate [of request_no_cert env_0130 signer_no_issuer]
  by (simp add: request_no_cert_def errors_New_def)

subsection \<open>The interval\<close>

text \<open>
  C8, as the code has it. For every run of \<open>Sign\<close> that returns bytes, the bytes
  are what \<open>ocsp.CreateResponse\<close> returned for the issuer, the responder, the key
  and a template whose nextUpdate is its thisUpdate plus the identity's interval,
  exactly; and for an
  identity built by \<open>NewSigner\<close> from a number of seconds between -9223372036 and
  9223372036, the interval is exactly that many seconds. Beyond that range the
  product with \<open>time.Second\<close> does not fit \<open>int64\<close> and wraps around.
\<close>

theorem Sign_nextUpdate_interval:
  assumes "Sign env s req = (tr, Inr bs)"
  shows "\<exists>t. template_of tr = Some t \<and>
           Call_CreateResponse (issuer s) (responder s) t (key s) \<in> set tr \<and>
           CreateResponse env (issuer s) (responder s) t (key s) = Inr bs \<and>
           resp_NextUpdate t = resp_ThisUpdate t + sint (interval s) \<and>
           (NewSigner i r k n = Inr s \<and> - 9223372036 \<le> sint n \<and> sint n \<le> 9223372036 \<longrightarrow>
              resp_NextUpdate t - resp_ThisUpdate t = sint n * 1000000000)"
proof -
  from assms obtain t where t: "template_of tr = Some t"
    and c: "Call_CreateResponse (issuer s) (responder s) t (key s) \<in> set tr"
    and e: "CreateResponse env (issuer s) (responder s) t (key s) = Inr bs"
    and d: "resp_NextUpdate t = resp_ThisUpdate t + sint (interval s)"
    by (rule Sign_Inr) (simp add: time_Add_def)
  have "sint (interval s) = sint n * 1000000000"
    if "NewSigner i r k n = Inr s" "- 9223372036 \<le> sint n" "sint n \<le> 9223372036"
  proof -
    from that(1) have "interval s = n * time_Second"
      by (auto simp: NewSigner_def)
    with that(2,3) show ?thesis
      by (simp add: interval_exact)
  qed
  with t c e d show ?thesis
    by auto
qed

theorem Sign_nextUpdate_interval_witness:
  "Sign env_0130_fields signer_3600 request_good_100 =
     ([Call_CheckSignatureFrom leaf_cert ca_cert, Call_time_Now,
       Call_CreateResponse (Some ca_cert) (Some responder_cert)
         \<lparr>resp_Status = 0, resp_SerialNumber = 7, resp_ProducedAt = 0,
          resp_ThisUpdate = 7200000000000, resp_NextUpdate = 10800000000000,
          resp_RevokedAt = 0, resp_RevocationReason = 0,
          resp_Certificate = Some responder_cert\<rparr> responder_key],
      Inr [0, 2, 3, 0, 0]) \<and>
   NewSigner (Some ca_cert) (Some responder_cert) responder_key 3600 = Inr signer_3600 \<and>
   - 9223372036 \<le> sint (3600 :: 64 word) \<and> sint (3600 :: 64 word) \<le> 9223372036 \<and>
   (10800000000000 :: int) - 7200000000000 = sint (3600 :: 64 word) * 1000000000"
  using Sign_nextUpdate_interval
          [where env = env_0130_fields and s = signer_3600 and req = request_good_100
             and tr = "fst (Sign env_0130_fields signer_3600 request_good_100)"
             and bs = "[0, 2, 3, 0, 0]"
             and i = "Some ca_cert" and r = "Some responder_cert" and k = responder_key
             and n = 3600]
  by (simp add: run_Sign world NewSigner_def)

text \<open>
  An identity built with 9223372037 seconds has an interval of
  -9223372036709551616 nanoseconds, and nextUpdate lies before thisUpdate.
\<close>

theorem NewSigner_interval_overflow_counterexample:
  "sint (9223372037 :: 64 word) = 9223372037 \<and>
   NewSigner (Some ca_cert) (Some responder_cert) responder_key 9223372037 = Inr signer_overflow \<and>
   sint (interval signer_overflow) = - 9223372036709551616 \<and>
   Sign env_0130 signer_overflow request_good =
     ([Call_CheckSignatureFrom leaf_cert ca_cert, Call_time_Now,
       Call_CreateResponse (Some ca_cert) (Some responder_cert)
         \<lparr>resp_Status = 0, resp_SerialNumber = 7, resp_ProducedAt = 0,
          resp_ThisUpdate = 7200000000000, resp_NextUpdate = - 9223364836709551616,
          resp_RevokedAt = 0, resp_RevocationReason = 0,
          resp_Certificate = Some responder_cert\<rparr> responder_key],
      Inr [48]) \<and>
   (- 9223364836709551616 :: int) - 7200000000000 \<noteq> 9223372037 * 1000000000"
  by (simp add: run_Sign world NewSigner_def)

subsection \<open>The errors of Sign\<close>

text \<open>
  C9. The specification has the four rejections of \<open>Sign\<close> return errors a caller
  can tell apart. The source returns \<open>errors.New("TODO")\<close>, marked \<open>XXX\<close>, at all four: a
  request without a certificate, one from a foreign issuer, one whose signature
  is refused and one with an unknown status all get the same error value.
\<close>

theorem Sign_errors_indistinguishable:
  "snd (Sign env_0130 signer_3600 request_no_cert) = Inl (Returned (errorString ''TODO'')) \<and>
   snd (Sign env_0130 signer_3600 request_foreign) = Inl (Returned (errorString ''TODO'')) \<and>
   snd (Sign env_0130_refusing signer_3600 request_good) = Inl (Returned (errorString ''TODO'')) \<and>
   snd (Sign env_0130 signer_3600 request_bad_status) = Inl (Returned (errorString ''TODO''))"
  by (simp add: run_Sign world)

subsection \<open>NewSigner\<close>

text \<open>
  C10. \<open>NewSigner\<close> never returns an error: for every issuer and responder (nil
  included), every key (nil included) and every interval (negative included) it
  returns a signer holding exactly these inputs, and never the error arm.
\<close>

theorem NewSigner_never_fails:
  "\<exists>s. NewSigner i r k n = Inr s \<and> issuer s = i \<and> responder s = r \<and> key s = k
       \<and> interval s = n * time_Second"
  by (simp add: NewSigner_def)

end
